theory Spec2Isabelle
  imports Complex_Main "HOL-Library.Product_Lexorder"
begin

section \<open>Values\<close>

text \<open>
  A measurement sample is a floating-point number or the missing marker \<open>np.nan\<close>. A number
  is kept as the real that the float64 stands for; no sample is infinite.
\<close>

datatype sample = NaN | Val real

definition isnan :: "sample \<Rightarrow> bool" where
  "isnan x = (x = NaN)"

text \<open>
  The arithmetic of float64: the exact result of an operation is rounded to the nearest
  float64, a tie to the one with an even significand. A finite float64 is a multiple of
  \<open>2 ^ (e - 52)\<close>, where \<open>e\<close> is the exponent of its binade (at least \<open>-1022\<close>, the subnormal
  range). Overflow to infinity is left out: subtracting 273.15 from a finite float64, or
  dividing it by 100, stays in range.
\<close>

definition round_ties_even :: "real \<Rightarrow> int" where
  "round_ties_even y =
     (let f = \<lfloor>y\<rfloor> in
      if y - of_int f < 1 / 2 then f
      else if 1 / 2 < y - of_int f then f + 1
      else if even f then f else f + 1)"

definition ulp_exponent :: "real \<Rightarrow> int" where
  "ulp_exponent x = max \<lfloor>log 2 \<bar>x\<bar>\<rfloor> (- 1022) - 52"

definition float64 :: "real \<Rightarrow> real" where
  "float64 x =
     (if x = 0 then 0
      else of_int (round_ties_even (x / 2 powr of_int (ulp_exponent x)))
             * 2 powr of_int (ulp_exponent x))"

text \<open>
  The leaves of the decoded JSON document: \<open>null\<close> (Python's \<open>None\<close>), booleans,
  integers, floats and strings. A document nests leaves in lists and in dictionaries; a
  dictionary is kept as the list of its items in insertion order (its keys are distinct).
\<close>

datatype scalar = SNone | SBool bool | SInt int | SFloat sample | SStr string


text \<open>The message-format identifier, as the JSON holds it: an integer or a string.\<close>

datatype bufr_msg = MsgInt int | MsgStr string

datatype error =
    KeyError string
  | UnitChangedError scalar scalar
  | UnexpectedUnit string scalar
  | NotImplementedError bufr_msg
  | UnboundLocalError string
  | TypeError
  | ValueError
  | OverflowError
  | IndexError

definition bind_err :: "error + 'a \<Rightarrow> ('a \<Rightarrow> error + 'b) \<Rightarrow> error + 'b" where
  "bind_err m f = (case m of Inl e \<Rightarrow> Inl e | Inr x \<Rightarrow> f x)"

section \<open>Python's \<open>str\<close> of an integer\<close>

definition digit_char :: "nat \<Rightarrow> char" where
  "digit_char d = ''0123456789'' ! d"

function str_nat :: "nat \<Rightarrow> string" where
  "str_nat n = (if n < 10 then [digit_char n] else str_nat (n div 10) @ [digit_char (n mod 10)])"
  by pat_completeness auto
termination
  by (relation "measure id") auto

declare str_nat.simps [simp del]

definition str_int :: "int \<Rightarrow> string" where
  "str_int i = (if i < 0 then CHR ''-'' # str_nat (nat (- i)) else str_nat (nat i))"

fun py_str :: "bufr_msg \<Rightarrow> string" where
  "py_str (MsgInt i) = str_int i"
| "py_str (MsgStr s) = s"

text \<open>Reading a digit string back, to show that \<open>str\<close> is injective on integers.\<close>

definition digit_val :: "char \<Rightarrow> nat" where
  "digit_val c = of_char c - 48"

definition read_nat :: "string \<Rightarrow> nat" where
  "read_nat s = foldl (\<lambda>a c. 10 * a + digit_val c) 0 s"

section \<open>Sounding direction\<close>

text \<open>
  \<^verbatim>\<open>get_sounding_direction(bufr_msg)\<close>: the identifier is compared through its
  string form; \<open>1\<close> is upward, \<open>-1\<close> downward, and any other identifier raises
  \<open>NotImplementedError\<close>.
\<close>

definition get_sounding_direction :: "bufr_msg \<Rightarrow> error + int" where
  "get_sounding_direction bufr_msg =
     (if py_str bufr_msg = ''309053'' then Inr (- 1)
      else if py_str bufr_msg = ''309056'' then Inr (- 1)
      else if py_str bufr_msg = ''309057'' then Inr 1
      else Inl (NotImplementedError bufr_msg))"

section \<open>The Sounding object\<close>

text \<open>The launch time, \<^verbatim>\<open>datetime.datetime(year, month, day, hour, minute, second)\<close>.\<close>

record datetime =
  dt_year :: int
  dt_month :: int
  dt_day :: int
  dt_hour :: int
  dt_minute :: int
  dt_second :: int

text \<open>
  An entry of \<open>meta_data\<close>: a value of the JSON document, or the operating frequency,
  which the code stores as the string \<^verbatim>\<open>str(value) + units\<close> (kept here as its two parts).
\<close>

datatype meta_val = MetaValue scalar | MetaFrequency scalar string

text \<open>
  \<^verbatim>\<open>class Sounding\<close>, with the attributes that \<^verbatim>\<open>__init__\<close> sets. The series hold the
  JSON leaves while the document is scanned (\<open>'v = scalar\<close>) and floats once they are numpy
  arrays (\<open>'v = sample\<close>). A unit that is not set is \<open>None\<close>.
\<close>

record 'v sounding =
  station_lat :: scalar
  station_lon :: scalar
  sounding_start_time :: "datetime option"
  time :: "'v list"
  time_unit :: scalar
  pressure :: "'v list"
  pressure_unit :: scalar
  temperature :: "'v list"
  temperature_unit :: scalar
  dewpoint :: "'v list"
  dewpoint_unit :: scalar
  windspeed :: "'v list"
  windspeed_unit :: scalar
  winddirection :: "'v list"
  winddirection_unit :: scalar
  gpm :: "'v list"
  gpm_unit :: scalar
  displacement_lat :: "'v list"
  displacement_lat_unit :: scalar
  displacement_lon :: "'v list"
  displacement_lon_unit :: scalar
  meta_data :: "string \<rightharpoonup> meta_val"

text \<open>
  The attributes that the processing script adds to the object before it is sorted and
  filtered: the derived series, the positions and the direction.
\<close>

record 'v profile = "'v sounding" +
  ascentrate :: "'v list"
  relativehumidity :: "'v list"
  mixingratio :: "'v list"
  latitude :: "'v list"
  longitude :: "'v list"
  direction :: int

text \<open>
  The loops over \<^verbatim>\<open>variables\<close> reach the attributes by name, through
  \<^verbatim>\<open>sounding.__dict__[var]\<close> and \<^verbatim>\<open>sounding.__dict__[var+'_unit']\<close>.
\<close>

datatype var =
    Displacement_lat | Displacement_lon | Pressure | Windspeed | Winddirection
  | Temperature | Dewpoint | Gpm | Time

definition variables :: "var list" where
  "variables = [Displacement_lat, Displacement_lon, Pressure, Windspeed, Winddirection,
                Temperature, Dewpoint, Gpm, Time]"

fun get_series :: "var \<Rightarrow> ('v, 'z) sounding_scheme \<Rightarrow> 'v list" where
  "get_series Displacement_lat s = displacement_lat s"
| "get_series Displacement_lon s = displacement_lon s"
| "get_series Pressure s = pressure s"
| "get_series Windspeed s = windspeed s"
| "get_series Winddirection s = winddirection s"
| "get_series Temperature s = temperature s"
| "get_series Dewpoint s = dewpoint s"
| "get_series Gpm s = gpm s"
| "get_series Time s = time s"

fun set_series :: "var \<Rightarrow> 'v list \<Rightarrow> ('v, 'z) sounding_scheme \<Rightarrow> ('v, 'z) sounding_scheme" where
  "set_series Displacement_lat x s = s\<lparr>displacement_lat := x\<rparr>"
| "set_series Displacement_lon x s = s\<lparr>displacement_lon := x\<rparr>"
| "set_series Pressure x s = s\<lparr>pressure := x\<rparr>"
| "set_series Windspeed x s = s\<lparr>windspeed := x\<rparr>"
| "set_series Winddirection x s = s\<lparr>winddirection := x\<rparr>"
| "set_series Temperature x s = s\<lparr>temperature := x\<rparr>"
| "set_series Dewpoint x s = s\<lparr>dewpoint := x\<rparr>"
| "set_series Gpm x s = s\<lparr>gpm := x\<rparr>"
| "set_series Time x s = s\<lparr>time := x\<rparr>"

fun get_unit :: "var \<Rightarrow> ('v, 'z) sounding_scheme \<Rightarrow> scalar" where
  "get_unit Displacement_lat s = displacement_lat_unit s"
| "get_unit Displacement_lon s = displacement_lon_unit s"
| "get_unit Pressure s = pressure_unit s"
| "get_unit Windspeed s = windspeed_unit s"
| "get_unit Winddirection s = winddirection_unit s"
| "get_unit Temperature s = temperature_unit s"
| "get_unit Dewpoint s = dewpoint_unit s"
| "get_unit Gpm s = gpm_unit s"
| "get_unit Time s = time_unit s"



section \<open>Missing data\<close>

text \<open>\<^verbatim>\<open>replace_none(entry)\<close>: \<open>None\<close> becomes \<open>np.nan\<close>, any other entry is kept.\<close>

definition replace_none :: "scalar \<Rightarrow> scalar" where
  "replace_none entry = (if entry = SNone then SFloat NaN else entry)"

text \<open>
  \<^verbatim>\<open>replace_missing_data(sounding)\<close>: for each name of \<open>variables\<close>, the series is
  replaced by \<^verbatim>\<open>list(map(replace_none, series))\<close>.
\<close>

definition replace_missing_data ::
  "(scalar, 'z) sounding_scheme \<Rightarrow> (scalar, 'z) sounding_scheme" where
  "replace_missing_data sounding =
     fold (\<lambda>var s. set_series var (map replace_none (get_series var s)) s) variables sounding"

section \<open>Unit normalisation\<close>

text \<open>
  Arithmetic of a numpy array with a float64 constant: element by element, each result
  rounded to float64; NaN stays NaN. The literal \<^verbatim>\<open>273.15\<close> of the source is the float64
  nearest to 273.15, and \<^verbatim>\<open>100\<close> is exact.
\<close>

definition array_sub :: "sample list \<Rightarrow> real \<Rightarrow> sample list" where
  "array_sub a c = map (\<lambda>x. case x of NaN \<Rightarrow> NaN | Val r \<Rightarrow> Val (float64 (r - c))) a"

definition array_div :: "sample list \<Rightarrow> real \<Rightarrow> sample list" where
  "array_div a c = map (\<lambda>x. case x of NaN \<Rightarrow> NaN | Val r \<Rightarrow> Val (float64 (r / c))) a"

definition kelvin_to_celsius :: "sample list \<Rightarrow> sample list" where
  "kelvin_to_celsius kelvin = array_sub kelvin (float64 273.15)"

definition pascal_to_hectoPascal :: "sample list \<Rightarrow> sample list" where
  "pascal_to_hectoPascal pascal = array_div pascal 100"

definition converter_dict :: "string \<rightharpoonup> (sample list \<Rightarrow> sample list)" where
  "converter_dict =
     [''K-->C'' \<mapsto> kelvin_to_celsius,
      ''K-->degC'' \<mapsto> kelvin_to_celsius,
      ''Pa-->hPa'' \<mapsto> pascal_to_hectoPascal]"





text \<open>The object that \<^verbatim>\<open>Sounding()\<close> creates.\<close>

definition empty_sounding :: "scalar sounding" where
  "empty_sounding = \<lparr>station_lat = SNone, station_lon = SNone, sounding_start_time = None,
     time = [], time_unit = SNone, pressure = [], pressure_unit = SNone,
     temperature = [], temperature_unit = SNone, dewpoint = [], dewpoint_unit = SNone,
     windspeed = [], windspeed_unit = SNone, winddirection = [], winddirection_unit = SNone,
     gpm = [], gpm_unit = SNone, displacement_lat = [], displacement_lat_unit = SNone,
     displacement_lon = [], displacement_lon_unit = SNone, meta_data = Map.empty\<rparr>"


text \<open>A sounding in the units of the BUFR message, with two temperature samples.\<close>

definition bufr_units_sounding :: "sample sounding" where
  "bufr_units_sounding = \<lparr>station_lat = SNone, station_lon = SNone, sounding_start_time = None,
     time = [Val 0, Val 1], time_unit = SStr ''s'',
     pressure = [Val 100000, Val 99000], pressure_unit = SStr ''Pa'',
     temperature = [Val 300, Val 290], temperature_unit = SStr ''K'',
     dewpoint = [Val 300, NaN], dewpoint_unit = SStr ''K'',
     windspeed = [Val 1, Val 2], windspeed_unit = SStr ''m/s'',
     winddirection = [Val 90, Val 95], winddirection_unit = SStr ''deg'',
     gpm = [Val 10, Val 15], gpm_unit = SStr ''gpm'',
     displacement_lat = [Val 0, Val 0], displacement_lat_unit = SStr ''deg'',
     displacement_lon = [Val 0, Val 0], displacement_lon_unit = SStr ''deg'',
     meta_data = Map.empty\<rparr>"

section \<open>Reordering and filtering\<close>

text \<open>
  \<^verbatim>\<open>array[mask]\<close> with a boolean array keeps the elements at which the mask is true, in
  their order; numpy raises \<open>IndexError\<close> when the mask has another length than the array.
\<close>

definition mask_index :: "'a list \<Rightarrow> bool list \<Rightarrow> error + 'a list" where
  "mask_index array bmask =
     (if length bmask = length array then Inr (map fst (filter snd (zip array bmask)))
      else Inl IndexError)"

text \<open>
  \<^verbatim>\<open>array[sorter]\<close> with an array of indices takes the elements at these indices, in the
  order of \<open>sorter\<close>; an index past the end raises \<open>IndexError\<close>.
\<close>

definition take_indices :: "'a list \<Rightarrow> nat list \<Rightarrow> error + 'a list" where
  "take_indices array sorter =
     (if list_all (\<lambda>i. i < length array) sorter then Inr (map ((!) array) sorter)
      else Inl IndexError)"

text \<open>
  Both \<open>sort_sounding_by_time\<close> and \<open>exclude_1000hPa_gpm\<close> index twelve series with one
  index array, one assignment after the other, in this order.
\<close>

definition index_series ::
  "(sample list \<Rightarrow> error + sample list) \<Rightarrow> (sample, 'z) profile_scheme
     \<Rightarrow> error + (sample, 'z) profile_scheme" where
  "index_series idx sounding =
     bind_err (idx (time sounding)) (\<lambda>x. let sounding = sounding\<lparr>time := x\<rparr> in
     bind_err (idx (ascentrate sounding)) (\<lambda>x. let sounding = sounding\<lparr>ascentrate := x\<rparr> in
     bind_err (idx (gpm sounding)) (\<lambda>x. let sounding = sounding\<lparr>gpm := x\<rparr> in
     bind_err (idx (pressure sounding)) (\<lambda>x. let sounding = sounding\<lparr>pressure := x\<rparr> in
     bind_err (idx (temperature sounding)) (\<lambda>x. let sounding = sounding\<lparr>temperature := x\<rparr> in
     bind_err (idx (relativehumidity sounding)) (\<lambda>x. let sounding = sounding\<lparr>relativehumidity := x\<rparr> in
     bind_err (idx (dewpoint sounding)) (\<lambda>x. let sounding = sounding\<lparr>dewpoint := x\<rparr> in
     bind_err (idx (mixingratio sounding)) (\<lambda>x. let sounding = sounding\<lparr>mixingratio := x\<rparr> in
     bind_err (idx (windspeed sounding)) (\<lambda>x. let sounding = sounding\<lparr>windspeed := x\<rparr> in
     bind_err (idx (winddirection sounding)) (\<lambda>x. let sounding = sounding\<lparr>winddirection := x\<rparr> in
     bind_err (idx (latitude sounding)) (\<lambda>x. let sounding = sounding\<lparr>latitude := x\<rparr> in
     bind_err (idx (longitude sounding)) (\<lambda>x. let sounding = sounding\<lparr>longitude := x\<rparr> in
     Inr sounding))))))))))))"

text \<open>
  \<^verbatim>\<open>exclude_1000hPa_gpm(sounding)\<close>: the mask \<^verbatim>\<open>~np.isnan(sounding.time)\<close> is computed
  once, from the time series as it is on entry.
\<close>

definition exclude_1000hPa_gpm ::
  "(sample, 'z) profile_scheme \<Rightarrow> error + (sample, 'z) profile_scheme" where
  "exclude_1000hPa_gpm sounding =
     (let nan_mask = map (\<lambda>t. \<not> isnan t) (time sounding)
      in index_series (\<lambda>array. mask_index array nan_mask) sounding)"

text \<open>
  The floats of the array \<open>tmp\<close> of \<open>nan_argsort\<close>: it holds the infinity that replaces
  a NaN (and NaN itself when \<open>direction\<close> is 0, since \<open>-inf * 0\<close> is NaN).
\<close>

datatype tmpval = MinusInf | Num real | PlusInf | NotANumber

fun as_float :: "sample \<Rightarrow> tmpval" where
  "as_float NaN = NotANumber"
| "as_float (Val r) = Num r"

definition minus_inf_times :: "int \<Rightarrow> tmpval" where
  "minus_inf_times d =
     (if d > 0 then MinusInf else if d < 0 then PlusInf else NotANumber)"

text \<open>
  \<^verbatim>\<open>np.argsort\<close> is numpy's: it is a parameter of the model. numpy orders floats as
  \<open>-inf < numbers < inf < nan\<close>, which \<open>sort_rank\<close> renders in a linear order; what numpy
  promises of \<open>argsort\<close> is \<open>is_argsort\<close>: the result is a permutation of the indices
  that puts the values in ascending order. The default kind (quicksort) leaves the order of
  equal values open.
\<close>

fun sort_rank :: "tmpval \<Rightarrow> nat \<times> real" where
  "sort_rank MinusInf = (0, 0)"
| "sort_rank (Num r) = (1, r)"
| "sort_rank PlusInf = (2, 0)"
| "sort_rank NotANumber = (3, 0)"

definition is_argsort :: "(tmpval list \<Rightarrow> nat list) \<Rightarrow> bool" where
  "is_argsort argsort \<longleftrightarrow>
     (\<forall>tmp. length (argsort tmp) = length tmp
          \<and> set (argsort tmp) = {0..<length tmp}
          \<and> sorted (map (\<lambda>i. sort_rank (tmp ! i)) (argsort tmp)))"

text \<open>An argsort is stable when it returns sorted input as it is.\<close>

definition keeps_sorted :: "(tmpval list \<Rightarrow> nat list) \<Rightarrow> bool" where
  "keeps_sorted argsort \<longleftrightarrow>
     (\<forall>tmp. sorted (map sort_rank tmp) \<longrightarrow> argsort tmp = [0..<length tmp])"

text \<open>An instance: a stable sort, in which equal values stay in index order.\<close>

definition stable_argsort :: "tmpval list \<Rightarrow> nat list" where
  "stable_argsort tmp = sort_key (\<lambda>i. sort_rank (tmp ! i)) [0..<length tmp]"

text \<open>
  \<^verbatim>\<open>nan_argsort(array, direction)\<close>, with \<open>d\<close> for the direction. The array \<open>tmp\<close> is the
  copy of \<open>array\<close> in which \<open>-inf * direction\<close> stands at the places of the NaNs.
\<close>

definition nan_replaced :: "sample list \<Rightarrow> int \<Rightarrow> tmpval list" where
  "nan_replaced array d = map (\<lambda>a. if isnan a then minus_inf_times d else as_float a) array"

definition nan_argsort :: "(tmpval list \<Rightarrow> nat list) \<Rightarrow> sample list \<Rightarrow> int \<Rightarrow> nat list" where
  "nan_argsort argsort array d = (let tmp = nan_replaced array d in argsort tmp)"

text \<open>\<^verbatim>\<open>sort_sounding_by_time(sounding)\<close>.\<close>

definition sort_sounding_by_time ::
  "(tmpval list \<Rightarrow> nat list) \<Rightarrow> (sample, 'z) profile_scheme
     \<Rightarrow> error + (sample, 'z) profile_scheme" where
  "sort_sounding_by_time argsort sounding =
     (let sorter = nan_argsort argsort (time sounding) (direction sounding)
      in index_series (\<lambda>array. take_indices array sorter) sounding)"

text \<open>A profile of three rows; the second row is the 1000 hPa level, without a time.\<close>

definition example_profile :: "sample profile" where
  "example_profile = \<lparr>station_lat = SNone, station_lon = SNone, sounding_start_time = None,
     time = [Val 2, NaN, Val 1], time_unit = SStr ''s'',
     pressure = [Val 990, Val 1000, NaN], pressure_unit = SStr ''hPa'',
     temperature = [Val 25, Val 26, Val 27], temperature_unit = SStr ''degC'',
     dewpoint = [NaN, Val 20, Val 21], dewpoint_unit = SStr ''degC'',
     windspeed = [Val 1, Val 2, Val 3], windspeed_unit = SStr ''m/s'',
     winddirection = [Val 90, Val 95, Val 99], winddirection_unit = SStr ''deg'',
     gpm = [Val 110, Val 0, Val 100], gpm_unit = SStr ''gpm'',
     displacement_lat = [Val 0, Val 0, Val 0], displacement_lat_unit = SStr ''deg'',
     displacement_lon = [Val 0, Val 0, Val 0], displacement_lon_unit = SStr ''deg'',
     meta_data = Map.empty,
     ascentrate = [Val 0, NaN, NaN], relativehumidity = [NaN, Val 70, Val 71],
     mixingratio = [NaN, Val 14, Val 15], latitude = [Val 13, Val 13, Val 13],
     longitude = [Val 59, Val 59, Val 59], direction = 1\<rparr>"

section \<open>Temporal resolution\<close>

text \<open>
  The numpy functions of \<open>calc_temporal_resolution\<close>. \<^verbatim>\<open>np.ma.compressed\<close> returns the data
  that are not masked: the time series is a plain array, which has no mask, so all of it
  (a NaN is data, not a masked entry).
\<close>

definition ma_compressed :: "sample list \<Rightarrow> sample list" where
  "ma_compressed x = x"

fun sample_minus :: "sample \<Rightarrow> sample \<Rightarrow> sample" where
  "sample_minus (Val a) (Val b) = Val (float64 (a - b))"
| "sample_minus _ _ = NaN"

fun sample_abs :: "sample \<Rightarrow> sample" where
  "sample_abs (Val a) = Val \<bar>a\<bar>"
| "sample_abs NaN = NaN"

text \<open>\<^verbatim>\<open>np.diff(a)\<close> is \<^verbatim>\<open>a[1:] - a[:-1]\<close>.\<close>

definition np_diff :: "sample list \<Rightarrow> sample list" where
  "np_diff a = map (\<lambda>(next_one, this_one). sample_minus next_one this_one) (zip (tl a) (butlast a))"

definition np_abs :: "sample list \<Rightarrow> sample list" where
  "np_abs a = map sample_abs a"

text \<open>
  \<^verbatim>\<open>astype(int)\<close> truncates towards zero, to a 64-bit integer. The cast of a NaN, or of a
  number whose truncation does not fit in 64 bits, is not defined by C; on x86-64 numpy gives
  the least 64-bit integer.
\<close>

definition trunc_toward_zero :: "real \<Rightarrow> int" where
  "trunc_toward_zero a = (if a \<ge> 0 then \<lfloor>a\<rfloor> else \<lceil>a\<rceil>)"

fun astype_int :: "sample \<Rightarrow> int" where
  "astype_int (Val a) =
     (if - (2 ^ 63) \<le> trunc_toward_zero a \<and> trunc_toward_zero a < 2 ^ 63
      then trunc_toward_zero a else - (2 ^ 63))"
| "astype_int NaN = - (2 ^ 63)"

text \<open>
  \<^verbatim>\<open>np.bincount(x)\<close>: the number of occurrences of each value from 0 to the maximum of
  \<open>x\<close>; a negative element raises \<open>ValueError\<close>, and an empty \<open>x\<close> gives an empty array.
\<close>

definition np_bincount :: "int list \<Rightarrow> error + nat list" where
  "np_bincount x =
     (if list_ex (\<lambda>v. v < 0) x then Inl ValueError
      else if x = [] then Inr []
      else Inr (map (\<lambda>v. count_list x (int v)) [0..<Suc (nat (Max (set x)))]))"

text \<open>\<^verbatim>\<open>np.argmax(a)\<close>: the first index of the maximum; an empty array raises \<open>ValueError\<close>.\<close>

definition np_argmax :: "nat list \<Rightarrow> error + nat" where
  "np_argmax a =
     (if a = [] then Inl ValueError
      else Inr (length (takeWhile (\<lambda>c. c \<noteq> Max (set a)) a)))"

text \<open>
  \<^verbatim>\<open>calc_temporal_resolution(sounding)\<close>: the result is the element of \<open>time_differences\<close>
  at the index \<^verbatim>\<open>np.argmax(time_differences_counts)\<close>; an index past the end raises
  \<open>IndexError\<close>.
\<close>

definition calc_temporal_resolution :: "(sample, 'z) sounding_scheme \<Rightarrow> error + sample" where
  "calc_temporal_resolution sounding =
     (let time_differences = np_abs (np_diff (ma_compressed (time sounding))) in
      bind_err (np_bincount (map astype_int time_differences)) (\<lambda>time_differences_counts.
      bind_err (np_argmax time_differences_counts) (\<lambda>k.
      if k < length time_differences then Inr (time_differences ! k) else Inl IndexError)))"

section \<open>Flattening the JSON document\<close>













section \<open>Reconstructing the sounding from the flattened document\<close>




text \<open>
  \<^verbatim>\<open>_ensure_measurement_integrity(self)\<close>: each of seven series, in this order, gets one
  \<open>np.nan\<close> appended when it is shorter than \<open>time\<close>.
\<close>

definition pad_series :: "var \<Rightarrow> scalar sounding \<Rightarrow> scalar sounding" where
  "pad_series v self =
     (if length (time self) > length (get_series v self)
      then set_series v (get_series v self @ [SFloat NaN]) self else self)"

definition padded_variables :: "var list" where
  "padded_variables =
     [Temperature, Gpm, Dewpoint, Pressure, Windspeed, Winddirection, Displacement_lat]"

definition ensure_measurement_integrity :: "scalar sounding \<Rightarrow> scalar sounding" where
  "ensure_measurement_integrity self = fold pad_series padded_variables self"
























section \<open>Facts about \<open>str\<close>\<close>

lemma digit_val_digit_char: "d < 10 \<Longrightarrow> digit_val (digit_char d) = d"
proof -
  assume "d < 10"
  then have "d \<in> {0, 1, 2, 3, 4, 5, 6, 7, 8, 9}" by auto
  then show ?thesis
    by (auto simp: digit_val_def digit_char_def)
qed

lemma read_nat_snoc: "read_nat (s @ [c]) = 10 * read_nat s + digit_val c"
  by (simp add: read_nat_def)

lemma read_nat_str_nat: "read_nat (str_nat n) = n"
proof (induction n rule: str_nat.induct)
  case (1 n)
  show ?case
  proof (cases "n < 10")
    case True
    then show ?thesis
      by (subst str_nat.simps) (simp add: read_nat_def digit_val_digit_char)
  next
    case False
    with "1" have "read_nat (str_nat (n div 10)) = n div 10" by simp
    with False show ?thesis
      by (subst str_nat.simps) (simp add: read_nat_snoc digit_val_digit_char)
  qed
qed

lemma str_nat_inj: "str_nat m = str_nat n \<Longrightarrow> m = n"
  by (metis read_nat_str_nat)

lemma str_nat_nonempty: "str_nat n \<noteq> []"
  by (subst str_nat.simps) simp

lemma digit_char_not_minus: "d < 10 \<Longrightarrow> digit_char d \<noteq> CHR ''-''"
proof -
  assume "d < 10"
  then have "d \<in> {0, 1, 2, 3, 4, 5, 6, 7, 8, 9}" by auto
  then show ?thesis
    by (auto simp: digit_char_def)
qed

lemma hd_str_nat_not_minus: "hd (str_nat n) \<noteq> CHR ''-''"
proof (induction n rule: str_nat.induct)
  case (1 n)
  show ?case
  proof (cases "n < 10")
    case True
    then show ?thesis
      by (subst str_nat.simps) (simp add: digit_char_not_minus)
  next
    case False
    with "1" have "hd (str_nat (n div 10)) \<noteq> CHR ''-''" by simp
    with False show ?thesis
      by (subst str_nat.simps) (simp add: str_nat_nonempty)
  qed
qed

lemma str_int_inj: "str_int i = str_int j \<Longrightarrow> i = j"
proof -
  assume eq: "str_int i = str_int j"
  have neg: "CHR ''-'' # str_nat a \<noteq> str_nat b" for a b
    using hd_str_nat_not_minus [of b] by (metis list.sel(1))
  show ?thesis
  proof (cases "i < 0")
    case True
    show ?thesis
    proof (cases "j < 0")
      case True
      with \<open>i < 0\<close> eq have "nat (- i) = nat (- j)"
        by (simp add: str_int_def str_nat_inj)
      with True \<open>i < 0\<close> show ?thesis by simp
    next
      case False
      with True eq neg show ?thesis by (simp add: str_int_def)
    qed
  next
    case False
    show ?thesis
    proof (cases "j < 0")
      case True
      with False eq neg [of "nat (- j)" "nat i"] show ?thesis
        by (simp add: str_int_def)
    next
      case False
      with \<open>\<not> i < 0\<close> eq have "nat i = nat j"
        by (simp add: str_int_def str_nat_inj)
      with False \<open>\<not> i < 0\<close> show ?thesis by simp
    qed
  qed
qed

lemma str_int_309053: "str_int 309053 = ''309053''"
  by (simp add: str_int_def str_nat.simps digit_char_def)

lemma str_int_309056: "str_int 309056 = ''309056''"
  by (simp add: str_int_def str_nat.simps digit_char_def)

lemma str_int_309057: "str_int 309057 = ''309057''"
  by (simp add: str_int_def str_nat.simps digit_char_def)

lemma str_int_eq_309053: "str_int n = ''309053'' \<longleftrightarrow> n = 309053"
  using str_int_inj [of n 309053] by (auto simp: str_int_309053)

lemma str_int_eq_309056: "str_int n = ''309056'' \<longleftrightarrow> n = 309056"
  using str_int_inj [of n 309056] by (auto simp: str_int_309056)

lemma str_int_eq_309057: "str_int n = ''309057'' \<longleftrightarrow> n = 309057"
  using str_int_inj [of n 309057] by (auto simp: str_int_309057)

section \<open>The direction of a sounding\<close>

text \<open>
  C8. \<open>get_sounding_direction\<close> returns \<open>1\<close> for the identifier 309057 and \<open>-1\<close> for
  309053 and 309056, given as an integer or as a string; every other integer identifier,
  and every identifier whose string form is none of the three, raises
  \<open>NotImplementedError\<close>; whenever a direction is returned it is \<open>1\<close> or \<open>-1\<close> and the
  identifier is one of the three, so there is no default direction.
\<close>

theorem get_sounding_direction_table:
  "get_sounding_direction (MsgInt 309057) = Inr 1
   \<and> get_sounding_direction (MsgInt 309053) = Inr (- 1)
   \<and> get_sounding_direction (MsgInt 309056) = Inr (- 1)
   \<and> (\<forall>n. n \<noteq> 309053 \<and> n \<noteq> 309056 \<and> n \<noteq> 309057 \<longrightarrow>
         get_sounding_direction (MsgInt n) = Inl (NotImplementedError (MsgInt n)))
   \<and> (\<forall>m. py_str m \<noteq> ''309053'' \<and> py_str m \<noteq> ''309056'' \<and> py_str m \<noteq> ''309057'' \<longrightarrow>
         get_sounding_direction m = Inl (NotImplementedError m))
   \<and> (\<forall>m d. get_sounding_direction m = Inr d \<longrightarrow>
         (d = 1 \<or> d = - 1) \<and> py_str m \<in> {''309053'', ''309056'', ''309057''})
   \<and> (\<forall>m. py_str m = ''309057'' \<longrightarrow> get_sounding_direction m = Inr 1)
   \<and> (\<forall>m. py_str m = ''309053'' \<longrightarrow> get_sounding_direction m = Inr (- 1))
   \<and> (\<forall>m. py_str m = ''309056'' \<longrightarrow> get_sounding_direction m = Inr (- 1))"
proof (intro conjI allI)
  show "get_sounding_direction (MsgInt 309057) = Inr 1"
    by (simp add: get_sounding_direction_def str_int_eq_309053 str_int_eq_309056
        str_int_eq_309057)
  show "get_sounding_direction (MsgInt 309053) = Inr (- 1)"
    by (simp add: get_sounding_direction_def str_int_eq_309053)
  show "get_sounding_direction (MsgInt 309056) = Inr (- 1)"
    by (simp add: get_sounding_direction_def str_int_eq_309053 str_int_eq_309056)
  show "n \<noteq> 309053 \<and> n \<noteq> 309056 \<and> n \<noteq> 309057 \<longrightarrow>
      get_sounding_direction (MsgInt n) = Inl (NotImplementedError (MsgInt n))" for n
    by (simp add: get_sounding_direction_def str_int_eq_309053 str_int_eq_309056
        str_int_eq_309057)
  show "py_str m \<noteq> ''309053'' \<and> py_str m \<noteq> ''309056'' \<and> py_str m \<noteq> ''309057'' \<longrightarrow>
      get_sounding_direction m = Inl (NotImplementedError m)" for m
    by (simp add: get_sounding_direction_def)
  show "get_sounding_direction m = Inr d \<longrightarrow>
      (d = 1 \<or> d = - 1) \<and> py_str m \<in> {''309053'', ''309056'', ''309057''}" for m d
    unfolding get_sounding_direction_def by (simp split: if_splits)
  show "py_str m = ''309057'' \<longrightarrow> get_sounding_direction m = Inr 1" for m
    by (simp add: get_sounding_direction_def)
  show "py_str m = ''309053'' \<longrightarrow> get_sounding_direction m = Inr (- 1)" for m
    by (simp add: get_sounding_direction_def)
  show "py_str m = ''309056'' \<longrightarrow> get_sounding_direction m = Inr (- 1)" for m
    by (simp add: get_sounding_direction_def)
qed

theorem get_sounding_direction_table_witness:
  "get_sounding_direction (MsgInt 309057) = Inr 1
   \<and> get_sounding_direction (MsgInt 309053) = Inr (- 1)
   \<and> get_sounding_direction (MsgInt 309054) = Inl (NotImplementedError (MsgInt 309054))
   \<and> get_sounding_direction (MsgStr ''309057.0'') = Inl (NotImplementedError (MsgStr ''309057.0''))
   \<and> get_sounding_direction (MsgStr ''309057'') = Inr 1
   \<and> get_sounding_direction (MsgStr ''309053'') = Inr (- 1)
   \<and> get_sounding_direction (MsgStr ''309056'') = Inr (- 1)"
proof -
  note t = get_sounding_direction_table
  have a: "get_sounding_direction (MsgInt 309057) = Inr 1"
    using t by (rule conjunct1)
  have b: "get_sounding_direction (MsgInt 309053) = Inr (- 1)"
    using t [THEN conjunct2] by (rule conjunct1)
  have "\<forall>n. n \<noteq> 309053 \<and> n \<noteq> 309056 \<and> n \<noteq> 309057 \<longrightarrow>
         get_sounding_direction (MsgInt n) = Inl (NotImplementedError (MsgInt n))"
    using t [THEN conjunct2, THEN conjunct2, THEN conjunct2] by (rule conjunct1)
  then have c: "get_sounding_direction (MsgInt 309054) = Inl (NotImplementedError (MsgInt 309054))"
    by simp
  have "\<forall>m. py_str m \<noteq> ''309053'' \<and> py_str m \<noteq> ''309056'' \<and> py_str m \<noteq> ''309057'' \<longrightarrow>
         get_sounding_direction m = Inl (NotImplementedError m)"
    using t [THEN conjunct2, THEN conjunct2, THEN conjunct2, THEN conjunct2] by (rule conjunct1)
  then have d: "get_sounding_direction (MsgStr ''309057.0'') = Inl (NotImplementedError (MsgStr ''309057.0''))"
    by simp
  note rest = t [THEN conjunct2, THEN conjunct2, THEN conjunct2, THEN conjunct2, THEN conjunct2,
      THEN conjunct2]
  from rest [THEN conjunct1] have e: "get_sounding_direction (MsgStr ''309057'') = Inr 1"
    by simp
  from rest [THEN conjunct2, THEN conjunct1]
  have f: "get_sounding_direction (MsgStr ''309053'') = Inr (- 1)"
    by simp
  from rest [THEN conjunct2, THEN conjunct2]
  have g: "get_sounding_direction (MsgStr ''309056'') = Inr (- 1)"
    by simp
  from a b c d e f g show ?thesis by simp
qed

section \<open>Attribute access\<close>

lemma get_set_series: "get_series v (set_series w x s) = (if v = w then x else get_series v s)"
  by (cases v; cases w) simp_all

lemma get_unit_set_series: "get_unit v (set_series w x s) = get_unit v s"
  by (cases v; cases w) simp_all



lemma replace_missing_data_series:
  "get_series var (replace_missing_data s) = map replace_none (get_series var s)"
  by (cases var) (simp_all add: replace_missing_data_def variables_def)

lemma replace_missing_data_unit: "get_unit var (replace_missing_data s) = get_unit var s"
  by (cases var) (simp_all add: replace_missing_data_def variables_def)

section \<open>Replacing missing data\<close>

text \<open>
  C10. \<open>replace_missing_data\<close> maps every one of the nine series (they are all the
  series of the object) through \<open>replace_none\<close>: the length is kept, an entry that is
  \<open>None\<close> becomes NaN and every other entry stays; the unit labels, the station
  coordinates, the launch time, the metadata and any further attribute are unchanged.
\<close>

theorem replace_missing_data_frame:
  "(\<forall>var. length (get_series var (replace_missing_data s)) = length (get_series var s)
      \<and> (\<forall>i < length (get_series var s).
            get_series var (replace_missing_data s) ! i =
              (if get_series var s ! i = SNone then SFloat NaN else get_series var s ! i))
      \<and> get_unit var (replace_missing_data s) = get_unit var s)
   \<and> station_lat (replace_missing_data s) = station_lat s
   \<and> station_lon (replace_missing_data s) = station_lon s
   \<and> sounding_start_time (replace_missing_data s) = sounding_start_time s
   \<and> meta_data (replace_missing_data s) = meta_data s
   \<and> sounding.more (replace_missing_data s) = sounding.more s"
proof (intro conjI allI impI)
  fix var
  show "length (get_series var (replace_missing_data s)) = length (get_series var s)"
    by (simp add: replace_missing_data_series)
  show "get_series var (replace_missing_data s) ! i =
        (if get_series var s ! i = SNone then SFloat NaN else get_series var s ! i)"
    if "i < length (get_series var s)" for i
    using that by (simp add: replace_missing_data_series replace_none_def)
  show "get_unit var (replace_missing_data s) = get_unit var s"
    by (rule replace_missing_data_unit)
qed (simp_all add: replace_missing_data_def variables_def)

theorem replace_missing_data_frame_witness:
  "temperature (replace_missing_data (empty_sounding\<lparr>temperature := [SNone, SInt 3]\<rparr>)) ! 0 = SFloat NaN
   \<and> temperature (replace_missing_data (empty_sounding\<lparr>temperature := [SNone, SInt 3]\<rparr>)) ! 1 = SInt 3
   \<and> length (temperature (replace_missing_data (empty_sounding\<lparr>temperature := [SNone, SInt 3]\<rparr>))) = 2"
proof -
  let ?s = "empty_sounding\<lparr>temperature := [SNone, SInt 3]\<rparr>"
  note t = replace_missing_data_frame [of ?s, THEN conjunct1, THEN spec, of Temperature]
  have l: "length (get_series Temperature ?s) = 2" by simp
  from t have "get_series Temperature (replace_missing_data ?s) ! 0 =
      (if get_series Temperature ?s ! 0 = SNone then SFloat NaN else get_series Temperature ?s ! 0)"
    using l by simp
  moreover from t have "get_series Temperature (replace_missing_data ?s) ! 1 =
      (if get_series Temperature ?s ! 1 = SNone then SFloat NaN else get_series Temperature ?s ! 1)"
    using l by simp
  moreover from t have "length (get_series Temperature (replace_missing_data ?s)) = 2"
    using l by simp
  ultimately show ?thesis by simp
qed

section \<open>Rounding to float64\<close>

lemma float64_binade:
  assumes "2 powr of_int k \<le> \<bar>x\<bar>" and "\<bar>x\<bar> < 2 powr of_int (k + 1)" and "- 1022 \<le> k"
  shows "float64 x = of_int (round_ties_even (x / 2 powr of_int (k - 52))) * 2 powr of_int (k - 52)"
proof -
  have pos: "0 < \<bar>x\<bar>"
    using assms(1) by (smt (verit) powr_gt_zero)
  with assms(1,2) have "\<lfloor>log 2 \<bar>x\<bar>\<rfloor> = k"
    by (simp add: floor_log_eq_powr_iff)
  with assms(3) have "ulp_exponent x = k - 52"
    by (simp add: ulp_exponent_def)
  with pos show ?thesis
    by (simp add: float64_def)
qed






text \<open>Small whole numbers are float64, so their differences are exact.\<close>

lemma float64_2: "float64 2 = 2"
proof -
  have "float64 2 = of_int (round_ties_even (2 / 2 powr of_int (1 - 52))) * 2 powr of_int (1 - 52)"
    by (rule float64_binade) simp_all
  also have "2 powr of_int (1 - 52) = (1 / 2251799813685248 :: real)"
    by (simp add: powr_minus_divide)
  also have "round_ties_even (2 / (1 / 2251799813685248)) = 4503599627370496"
    by (simp add: round_ties_even_def Let_def)
  finally show ?thesis by simp
qed

lemma float64_3: "float64 3 = 3"
proof -
  have "float64 3 = of_int (round_ties_even (3 / 2 powr of_int (1 - 52))) * 2 powr of_int (1 - 52)"
    by (rule float64_binade) simp_all
  also have "2 powr of_int (1 - 52) = (1 / 2251799813685248 :: real)"
    by (simp add: powr_minus_divide)
  also have "round_ties_even (3 / (1 / 2251799813685248)) = 6755399441055744"
    by (simp add: round_ties_even_def Let_def)
  finally show ?thesis by simp
qed

lemma float64_5: "float64 5 = 5"
proof -
  have "float64 5 = of_int (round_ties_even (5 / 2 powr of_int (2 - 52))) * 2 powr of_int (2 - 52)"
    by (rule float64_binade) simp_all
  also have "2 powr of_int (2 - 52) = (1 / 1125899906842624 :: real)"
    by (simp add: powr_minus_divide)
  also have "round_ties_even (5 / (1 / 1125899906842624)) = 5629499534213120"
    by (simp add: round_ties_even_def Let_def)
  finally show ?thesis by simp
qed



section \<open>Normalising the units\<close>











lemma converter_K_degC: "converter_dict (''K'' @ ''-->'' @ ''degC'') = Some kelvin_to_celsius"
  by (simp add: converter_dict_def)




section \<open>Indexing the twelve series\<close>

lemma index_series_Inr:
  "index_series idx s = Inr s' \<longleftrightarrow>
     (\<exists>t a g p te r d m ws wd la lo.
        idx (time s) = Inr t \<and> idx (ascentrate s) = Inr a \<and> idx (gpm s) = Inr g
        \<and> idx (pressure s) = Inr p \<and> idx (temperature s) = Inr te
        \<and> idx (relativehumidity s) = Inr r \<and> idx (dewpoint s) = Inr d
        \<and> idx (mixingratio s) = Inr m \<and> idx (windspeed s) = Inr ws
        \<and> idx (winddirection s) = Inr wd \<and> idx (latitude s) = Inr la
        \<and> idx (longitude s) = Inr lo
        \<and> s' = s\<lparr>time := t, ascentrate := a, gpm := g, pressure := p, temperature := te,
                 relativehumidity := r, dewpoint := d, mixingratio := m, windspeed := ws,
                 winddirection := wd, latitude := la, longitude := lo\<rparr>)"
  unfolding index_series_def bind_err_def Let_def
  by (simp split: sum.splits) (auto)

lemma mask_nths:
  "length xs = length ts \<Longrightarrow>
     map fst (filter snd (zip xs (map P ts))) = nths xs {i. i < length ts \<and> P (ts ! i)}"
proof (induction xs ts rule: list_induct2)
  case Nil
  then show ?case by simp
next
  case (Cons x xs t ts)
  have "{j. Suc j < Suc (length ts) \<and> P ((t # ts) ! Suc j)} = {j. j < length ts \<and> P (ts ! j)}"
    by simp
  with Cons show ?case
    by (simp add: nths_Cons)
qed

lemma mask_index_Inr:
  "mask_index xs (map P ts) = Inr ys \<longleftrightarrow>
     length xs = length ts \<and> ys = nths xs {i. i < length ts \<and> P (ts ! i)}"
  by (auto simp: mask_index_def mask_nths)

lemma exclude_1000hPa_gpm_Inr:
  "exclude_1000hPa_gpm s = Inr s' \<longleftrightarrow>
     list_all (\<lambda>x. length x = length (time s))
       [ascentrate s, gpm s, pressure s, temperature s, relativehumidity s, dewpoint s,
        mixingratio s, windspeed s, winddirection s, latitude s, longitude s]
     \<and> s' = (let kept = {i. i < length (time s) \<and> \<not> isnan (time s ! i)} in
         s\<lparr>time := nths (time s) kept, ascentrate := nths (ascentrate s) kept,
           gpm := nths (gpm s) kept, pressure := nths (pressure s) kept,
           temperature := nths (temperature s) kept,
           relativehumidity := nths (relativehumidity s) kept,
           dewpoint := nths (dewpoint s) kept, mixingratio := nths (mixingratio s) kept,
           windspeed := nths (windspeed s) kept, winddirection := nths (winddirection s) kept,
           latitude := nths (latitude s) kept, longitude := nths (longitude s) kept\<rparr>)"
  unfolding exclude_1000hPa_gpm_def Let_def index_series_Inr mask_index_Inr
  by auto

section \<open>Excluding the 1000 hPa level\<close>

text \<open>
  C7. When \<open>exclude_1000hPa_gpm\<close> returns, each of the twelve series holds exactly the
  elements at the indices whose time is not NaN, in their order: the rows without a time
  are removed, every other row is kept whatever else it misses. The function returns
  exactly when the twelve series have one length.
\<close>

theorem exclude_1000hPa_gpm_rows:
  "(exclude_1000hPa_gpm s = Inr s' \<longrightarrow>
      (let kept = {i. i < length (time s) \<and> \<not> isnan (time s ! i)} in
         time s' = nths (time s) kept \<and> ascentrate s' = nths (ascentrate s) kept
         \<and> gpm s' = nths (gpm s) kept \<and> pressure s' = nths (pressure s) kept
         \<and> temperature s' = nths (temperature s) kept
         \<and> relativehumidity s' = nths (relativehumidity s) kept
         \<and> dewpoint s' = nths (dewpoint s) kept \<and> mixingratio s' = nths (mixingratio s) kept
         \<and> windspeed s' = nths (windspeed s) kept
         \<and> winddirection s' = nths (winddirection s) kept
         \<and> latitude s' = nths (latitude s) kept \<and> longitude s' = nths (longitude s) kept))
   \<and> ((\<exists>r. exclude_1000hPa_gpm s = Inr r) \<longleftrightarrow>
        list_all (\<lambda>x. length x = length (time s))
          [ascentrate s, gpm s, pressure s, temperature s, relativehumidity s, dewpoint s,
           mixingratio s, windspeed s, winddirection s, latitude s, longitude s])"
proof (intro conjI impI)
  assume "exclude_1000hPa_gpm s = Inr s'"
  then show "let kept = {i. i < length (time s) \<and> \<not> isnan (time s ! i)} in
         time s' = nths (time s) kept \<and> ascentrate s' = nths (ascentrate s) kept
         \<and> gpm s' = nths (gpm s) kept \<and> pressure s' = nths (pressure s) kept
         \<and> temperature s' = nths (temperature s) kept
         \<and> relativehumidity s' = nths (relativehumidity s) kept
         \<and> dewpoint s' = nths (dewpoint s) kept \<and> mixingratio s' = nths (mixingratio s) kept
         \<and> windspeed s' = nths (windspeed s) kept
         \<and> winddirection s' = nths (winddirection s) kept
         \<and> latitude s' = nths (latitude s) kept \<and> longitude s' = nths (longitude s) kept"
    by (simp add: exclude_1000hPa_gpm_Inr Let_def)
next
  show "(\<exists>r. exclude_1000hPa_gpm s = Inr r) \<longleftrightarrow>
        list_all (\<lambda>x. length x = length (time s))
          [ascentrate s, gpm s, pressure s, temperature s, relativehumidity s, dewpoint s,
           mixingratio s, windspeed s, winddirection s, latitude s, longitude s]"
    by (simp add: exclude_1000hPa_gpm_Inr)
qed

theorem exclude_1000hPa_gpm_rows_witness:
  "\<exists>r. exclude_1000hPa_gpm example_profile = Inr r
      \<and> time r = [Val 2, Val 1] \<and> pressure r = [Val 990, NaN]
      \<and> dewpoint r = [NaN, Val 21] \<and> gpm r = [Val 110, Val 100]"
proof -
  let ?s = example_profile
  note t = exclude_1000hPa_gpm_rows
  have "list_all (\<lambda>x. length x = length (time ?s))
          [ascentrate ?s, gpm ?s, pressure ?s, temperature ?s, relativehumidity ?s, dewpoint ?s,
           mixingratio ?s, windspeed ?s, winddirection ?s, latitude ?s, longitude ?s]"
    by (simp add: example_profile_def)
  with t [of ?s undefined, THEN conjunct2] obtain r where r: "exclude_1000hPa_gpm ?s = Inr r"
    by auto
  have kept: "{i. i < length (time ?s) \<and> \<not> isnan (time ?s ! i)} = {0, 2}"
    by (auto simp: example_profile_def isnan_def less_Suc_eq nth_Cons')
  from t [of ?s r, THEN conjunct1] r
  have "time r = [Val 2, Val 1] \<and> pressure r = [Val 990, NaN]
      \<and> dewpoint r = [NaN, Val 21] \<and> gpm r = [Val 110, Val 100]"
    unfolding Let_def kept by (simp add: example_profile_def nths_Cons)
  with r show ?thesis by blast
qed

section \<open>The stable argsort\<close>

lemma is_argsort_stable: "is_argsort stable_argsort"
  by (simp add: is_argsort_def stable_argsort_def sorted_sort_key)

lemma keeps_sorted_stable: "keeps_sorted stable_argsort"
proof -
  have "sort_key (\<lambda>i. sort_rank (tmp ! i)) [0..<length tmp] = [0..<length tmp]"
    if "sorted (map sort_rank tmp)" for tmp
  proof -
    have "map (\<lambda>i. sort_rank (tmp ! i)) [0..<length tmp] = map sort_rank tmp"
      by (rule nth_equalityI) simp_all
    with that show ?thesis
      by (simp add: sort_key_id_if_sorted)
  qed
  then show ?thesis
    by (simp add: keeps_sorted_def stable_argsort_def)
qed

section \<open>The order of \<open>nan_argsort\<close>\<close>

lemma nan_replaced_nth:
  "k < length array \<Longrightarrow>
     nan_replaced array d ! k = (if isnan (array ! k) then minus_inf_times d else as_float (array ! k))"
  by (simp add: nan_replaced_def)

lemma length_nan_replaced: "length (nan_replaced array d) = length array"
  by (simp add: nan_replaced_def)

lemma nan_argsort_ranks:
  assumes "is_argsort argsort" and "i < j" and "j < length array"
  shows "nan_argsort argsort array d ! i < length array"
    and "nan_argsort argsort array d ! j < length array"
    and "sort_rank (nan_replaced array d ! (nan_argsort argsort array d ! i))
           \<le> sort_rank (nan_replaced array d ! (nan_argsort argsort array d ! j))"
proof -
  let ?tmp = "nan_replaced array d"
  let ?p = "argsort ?tmp"
  from assms(1) have len: "length ?p = length array" and set: "set ?p = {0..<length array}"
    and srt: "sorted (map (\<lambda>i. sort_rank (?tmp ! i)) ?p)"
    by (simp_all add: is_argsort_def length_nan_replaced)
  from assms(2,3) len have i: "i < length ?p" and j: "j < length ?p" by simp_all
  from i set have "?p ! i \<in> {0..<length array}" using nth_mem by blast
  then show "nan_argsort argsort array d ! i < length array"
    by (simp add: nan_argsort_def)
  from j set have "?p ! j \<in> {0..<length array}" using nth_mem by blast
  then show "nan_argsort argsort array d ! j < length array"
    by (simp add: nan_argsort_def)
  from srt i j assms(2)
  have "map (\<lambda>i. sort_rank (?tmp ! i)) ?p ! i \<le> map (\<lambda>i. sort_rank (?tmp ! i)) ?p ! j"
    by (intro sorted_nth_mono) simp_all
  with i j show "sort_rank (?tmp ! (nan_argsort argsort array d ! i))
           \<le> sort_rank (?tmp ! (nan_argsort argsort array d ! j))"
    by (simp add: nan_argsort_def)
qed

text \<open>
  C2 (as the code has it). For an argsort that meets numpy's contract, \<open>nan_argsort\<close>
  returns a permutation of the indices in which, for direction \<open>1\<close>, every index with a
  missing time stands before every index with a time, for direction \<open>-1\<close> after it, and
  the indices with a time are in ascending order of the time.
\<close>

theorem nan_argsort_order:
  assumes "is_argsort argsort" and "i < j" and "j < length array"
  shows "length (nan_argsort argsort array d) = length array
    \<and> set (nan_argsort argsort array d) = {0..<length array}
    \<and> (d = 1 \<and> isnan (array ! (nan_argsort argsort array d ! j))
          \<longrightarrow> isnan (array ! (nan_argsort argsort array d ! i)))
    \<and> (d = - 1 \<and> isnan (array ! (nan_argsort argsort array d ! i))
          \<longrightarrow> isnan (array ! (nan_argsort argsort array d ! j)))
    \<and> (\<forall>a b. array ! (nan_argsort argsort array d ! i) = Val a
           \<and> array ! (nan_argsort argsort array d ! j) = Val b \<longrightarrow> a \<le> b)"
proof -
  let ?p = "nan_argsort argsort array d"
  note r = nan_argsort_ranks [OF assms, of d]
  from r(1) have ti: "nan_replaced array d ! (?p ! i)
      = (if isnan (array ! (?p ! i)) then minus_inf_times d else as_float (array ! (?p ! i)))"
    by (rule nan_replaced_nth)
  from r(2) have tj: "nan_replaced array d ! (?p ! j)
      = (if isnan (array ! (?p ! j)) then minus_inf_times d else as_float (array ! (?p ! j)))"
    by (rule nan_replaced_nth)
  note le = r(3) [unfolded ti tj]
  have perm: "length ?p = length array \<and> set ?p = {0..<length array}"
    using assms(1) by (simp add: is_argsort_def nan_argsort_def length_nan_replaced)
  have up: "d = 1 \<and> isnan (array ! (?p ! j)) \<longrightarrow> isnan (array ! (?p ! i))"
    using le by (cases "array ! (?p ! i)") (auto simp: isnan_def minus_inf_times_def)
  have down: "d = - 1 \<and> isnan (array ! (?p ! i)) \<longrightarrow> isnan (array ! (?p ! j))"
    using le by (cases "array ! (?p ! j)") (auto simp: isnan_def minus_inf_times_def)
  have num: "\<forall>a b. array ! (?p ! i) = Val a \<and> array ! (?p ! j) = Val b \<longrightarrow> a \<le> b"
    using le by (auto simp: isnan_def)
  from perm up down num show ?thesis by simp
qed

lemma nan_argsort_example_up:
  "nan_argsort stable_argsort [Val 2, NaN, NaN, Val 1] 1 = [1, 2, 3, 0]"
  by code_simp

lemma nan_argsort_example_down:
  "nan_argsort stable_argsort [Val 2, NaN, NaN, Val 1] (- 1) = [3, 0, 1, 2]"
  by code_simp

theorem nan_argsort_order_witness:
  "is_argsort stable_argsort
   \<and> nan_argsort stable_argsort [Val 2, NaN, NaN, Val 1] 1 = [1, 2, 3, 0]
   \<and> isnan ([Val 2, NaN, NaN, Val 1] ! (nan_argsort stable_argsort [Val 2, NaN, NaN, Val 1] 1 ! 0))
   \<and> nan_argsort stable_argsort [Val 2, NaN, NaN, Val 1] (- 1) = [3, 0, 1, 2]
   \<and> isnan ([Val 2, NaN, NaN, Val 1] ! (nan_argsort stable_argsort [Val 2, NaN, NaN, Val 1] (- 1) ! 3))
   \<and> (1::real) \<le> 2"
proof -
  let ?a = "[Val 2, NaN, NaN, Val 1]"
  have h01: "(0::nat) < 1" and h1: "1 < length ?a" and h23: "(2::nat) < 3" and h3: "3 < length ?a"
    by simp_all
  from nan_argsort_order [OF is_argsort_stable h01 h1, of 1]
  have up: "isnan (?a ! (nan_argsort stable_argsort ?a 1 ! 0))"
    by (simp add: nan_argsort_example_up isnan_def)
  from nan_argsort_order [OF is_argsort_stable h23 h3, of "- 1"]
  have down: "isnan (?a ! (nan_argsort stable_argsort ?a (- 1) ! 3))"
    by (simp add: nan_argsort_example_down isnan_def)
  from nan_argsort_order [OF is_argsort_stable h23 h3, of 1]
  have num: "(1::real) \<le> 2"
    by (simp add: nan_argsort_example_up)
  from is_argsort_stable nan_argsort_example_up nan_argsort_example_down up down num
  show ?thesis by simp
qed

theorem nan_argsort_missing_first_counterexample:
  "nan_argsort stable_argsort [Val 1, NaN] 1 = [1, 0]
   \<and> isnan ([Val 1, NaN] ! (nan_argsort stable_argsort [Val 1, NaN] 1 ! 0))
   \<and> \<not> isnan ([Val 1, NaN] ! (nan_argsort stable_argsort [Val 1, NaN] 1 ! 1))
   \<and> nan_argsort stable_argsort [NaN, Val 1] (- 1) = [1, 0]
   \<and> \<not> isnan ([NaN, Val 1] ! (nan_argsort stable_argsort [NaN, Val 1] (- 1) ! 0))
   \<and> isnan ([NaN, Val 1] ! (nan_argsort stable_argsort [NaN, Val 1] (- 1) ! 1))"
proof -
  have a: "nan_argsort stable_argsort [Val 1, NaN] 1 = [1, 0]"
    by code_simp
  have b: "nan_argsort stable_argsort [NaN, Val 1] (- 1) = [1, 0]"
    by code_simp
  show ?thesis
    unfolding a b by (simp add: isnan_def)
qed

section \<open>Sorting twice\<close>

lemma take_indices_Inr:
  "take_indices xs p = Inr ys \<longleftrightarrow> (\<forall>i \<in> set p. i < length xs) \<and> ys = map ((!) xs) p"
  by (auto simp: take_indices_def list_all_iff)

lemma take_indices_upt: "take_indices xs [0..<length xs] = Inr xs"
  by (simp add: take_indices_Inr map_nth)

lemma inj_sort_rank: "inj sort_rank"
proof (rule injI)
  fix x y assume "sort_rank x = sort_rank y"
  then show "x = y" by (cases x; cases y) simp_all
qed

lemma nan_replaced_take:
  "\<forall>i \<in> set p. i < length xs \<Longrightarrow>
     nan_replaced (map ((!) xs) p) d = map ((!) (nan_replaced xs d)) p"
  by (simp add: nan_replaced_def)

lemma argsort_sorted_distinct:
  assumes "is_argsort argsort" and "sorted (map sort_rank t)" and "distinct t"
  shows "argsort t = [0..<length t]"
proof -
  let ?q = "argsort t" and ?g = "\<lambda>i. sort_rank (t ! i)"
  from assms(1) have len: "length ?q = length t" and set: "set ?q = {0..<length t}"
    and srt: "sorted (map ?g ?q)"
    by (simp_all add: is_argsort_def)
  have dq: "distinct ?q"
    by (rule card_distinct) (simp add: set len)
  have inj: "inj_on ?g {0..<length t}"
  proof (rule inj_onI)
    fix i j assume "i \<in> {0..<length t}" "j \<in> {0..<length t}" "?g i = ?g j"
    with inj_sort_rank have "t ! i = t ! j" by (simp add: inj_eq)
    with assms(3) \<open>i \<in> _\<close> \<open>j \<in> _\<close> show "i = j"
      by (simp add: nth_eq_iff_index_eq)
  qed
  have id: "map ?g [0..<length t] = map sort_rank t"
    by (rule nth_equalityI) simp_all
  have "map ?g ?q = map ?g [0..<length t]"
  proof (rule sorted_distinct_set_unique)
    show "sorted (map ?g ?q)" by (rule srt)
    show "distinct (map ?g ?q)" using dq inj set by (simp add: distinct_map)
    show "sorted (map ?g [0..<length t])" using assms(2) by (simp only: id)
    show "distinct (map ?g [0..<length t])" using inj by (simp add: distinct_map)
    show "set (map ?g ?q) = set (map ?g [0..<length t])" using set by simp
  qed
  moreover have "inj_on ?g (set ?q \<union> set [0..<length t])"
    using inj set by simp
  ultimately show ?thesis
    by (simp only: inj_on_map_eq_map)
qed

lemma map_nth_upto: "length xs = n \<Longrightarrow> map ((!) xs) [0..<n] = xs"
  using map_nth [of xs] by simp

lemma sort_sounding_by_time_Inr:
  "sort_sounding_by_time argsort s = Inr s1 \<longleftrightarrow>
     (let p = nan_argsort argsort (time s) (direction s) in
      list_all (\<lambda>x. \<forall>i \<in> set p. i < length x)
        [time s, ascentrate s, gpm s, pressure s, temperature s, relativehumidity s,
         dewpoint s, mixingratio s, windspeed s, winddirection s, latitude s, longitude s]
      \<and> s1 = s\<lparr>time := map ((!) (time s)) p, ascentrate := map ((!) (ascentrate s)) p,
           gpm := map ((!) (gpm s)) p, pressure := map ((!) (pressure s)) p,
           temperature := map ((!) (temperature s)) p,
           relativehumidity := map ((!) (relativehumidity s)) p,
           dewpoint := map ((!) (dewpoint s)) p, mixingratio := map ((!) (mixingratio s)) p,
           windspeed := map ((!) (windspeed s)) p,
           winddirection := map ((!) (winddirection s)) p,
           latitude := map ((!) (latitude s)) p, longitude := map ((!) (longitude s)) p\<rparr>)"
  unfolding sort_sounding_by_time_def Let_def index_series_Inr take_indices_Inr
  by auto

lemma sort_sounding_by_time_sorted:
  assumes "length (time s) = n" and "length (ascentrate s) = n" and "length (gpm s) = n"
    and "length (pressure s) = n" and "length (temperature s) = n"
    and "length (relativehumidity s) = n" and "length (dewpoint s) = n"
    and "length (mixingratio s) = n" and "length (windspeed s) = n"
    and "length (winddirection s) = n" and "length (latitude s) = n"
    and "length (longitude s) = n"
    and "nan_argsort argsort (time s) (direction s) = [0..<n]"
  shows "sort_sounding_by_time argsort s = Inr s"
  unfolding sort_sounding_by_time_Inr Let_def assms(13)
  using assms(1-12) by (simp add: map_nth_upto)

text \<open>
  Sorting a sorted profile again returns it unchanged when the argsort returns sorted input
  as it is (as a stable sort does), and for any argsort that meets numpy's contract when the
  sort keys are pairwise distinct, that is when no two times are equal and at most one is
  missing. Whether numpy's default argsort leaves tied rows of sorted input in place is not
  settled by its contract.
\<close>

lemma sort_sounding_by_time_idempotent:
  assumes "is_argsort argsort"
    and "keeps_sorted argsort \<or> distinct (nan_replaced (time s) (direction s))"
    and "sort_sounding_by_time argsort s = Inr s1"
  shows "sort_sounding_by_time argsort s1 = Inr s1"
proof -
  let ?d = "direction s"
  let ?tmp = "nan_replaced (time s) ?d"
  let ?p = "nan_argsort argsort (time s) ?d"
  let ?n = "length (time s)"
  from assms(1) have len: "length ?p = ?n" and set: "set ?p = {0..<?n}"
    and srt: "sorted (map (\<lambda>i. sort_rank (?tmp ! i)) ?p)"
    by (simp_all add: is_argsort_def nan_argsort_def length_nan_replaced)
  note s1 = assms(3) [unfolded sort_sounding_by_time_Inr Let_def]
  from s1 have dir: "direction s1 = ?d" and time1: "time s1 = map ((!) (time s)) ?p"
    by simp_all
  from set have inb: "\<forall>i \<in> set ?p. i < length (time s)" by simp
  have tmp1: "nan_replaced (time s1) ?d = map ((!) ?tmp) ?p"
    unfolding time1 by (rule nan_replaced_take [OF inb])
  have sorted1: "sorted (map sort_rank (nan_replaced (time s1) ?d))"
    using srt by (simp add: tmp1 comp_def)
  have len1: "length (nan_replaced (time s1) ?d) = ?n"
    by (simp add: tmp1 len)
  have "argsort (nan_replaced (time s1) ?d) = [0..<?n]"
  proof (cases "keeps_sorted argsort")
    case True
    with sorted1 len1 show ?thesis
      by (simp add: keeps_sorted_def)
  next
    case False
    with assms(2) have dt: "distinct ?tmp" by simp
    have dp: "distinct ?p"
      by (rule card_distinct) (simp add: set len)
    have "inj_on ((!) ?tmp) (set ?p)"
      using dt set by (simp add: inj_on_nth length_nan_replaced)
    with dp have "distinct (nan_replaced (time s1) ?d)"
      by (simp add: tmp1 distinct_map)
    from argsort_sorted_distinct [OF assms(1) sorted1 this] len1 show ?thesis
      by simp
  qed
  then have again: "nan_argsort argsort (time s1) (direction s1) = [0..<?n]"
    by (simp add: nan_argsort_def dir)
  from s1 len show ?thesis
    by (intro sort_sounding_by_time_sorted [OF _ _ _ _ _ _ _ _ _ _ _ _ again]) simp_all
qed

section \<open>The temporal resolution\<close>

text \<open>
  C3. The claim is that \<open>calc_temporal_resolution\<close> returns the most frequent of the
  truncated sampling intervals. For the times 0, 2, 4, 7 the intervals are 2, 2, 3, whose
  mode is 2: the code uses the mode as an index into the intervals and returns the interval
  at index 2, which is 3. For the times 0, 5, 10 the mode 5 is past the end of the two
  intervals, and the code raises \<open>IndexError\<close>.
\<close>

theorem calc_temporal_resolution_indexes_by_mode:
  "map astype_int (np_abs (np_diff [Val 0, Val 2, Val 4, Val 7])) = [2, 2, 3]
   \<and> np_bincount [2, 2, 3] = Inr [0, 0, 2, 1]
   \<and> np_argmax [0, 0, 2, 1] = Inr 2
   \<and> calc_temporal_resolution (bufr_units_sounding\<lparr>time := [Val 0, Val 2, Val 4, Val 7]\<rparr>)
       = Inr (Val 3)
   \<and> calc_temporal_resolution (bufr_units_sounding\<lparr>time := [Val 0, Val 5, Val 10]\<rparr>)
       = Inl IndexError"
proof -
  have d1: "np_abs (np_diff [Val 0, Val 2, Val 4, Val 7]) = [Val 2, Val 2, Val 3]"
    by (simp add: np_abs_def np_diff_def float64_2 float64_3)
  have i1: "map astype_int [Val 2, Val 2, Val 3] = [2, 2, 3]"
    by (simp add: trunc_toward_zero_def)
  have b1: "np_bincount [2, 2, 3] = Inr [0, 0, 2, 1]"
    by (simp add: np_bincount_def upt_conv_Cons)
  have a1: "np_argmax [0, 0, 2, 1] = Inr 2"
    by (simp add: np_argmax_def)
  have d2: "np_abs (np_diff [Val 0, Val 5, Val 10]) = [Val 5, Val 5]"
    by (simp add: np_abs_def np_diff_def float64_5)
  have i2: "map astype_int [Val 5, Val 5] = [5, 5]"
    by (simp add: trunc_toward_zero_def)
  have b2: "np_bincount [5, 5] = Inr [0, 0, 0, 0, 0, 2]"
    by (simp add: np_bincount_def upt_conv_Cons)
  have a2: "np_argmax [0, 0, 0, 0, 0, 2] = Inr 5"
    by (simp add: np_argmax_def)
  have t1: "time (bufr_units_sounding\<lparr>time := [Val 0, Val 2, Val 4, Val 7]\<rparr>)
      = [Val 0, Val 2, Val 4, Val 7]"
    and t2: "time (bufr_units_sounding\<lparr>time := [Val 0, Val 5, Val 10]\<rparr>) = [Val 0, Val 5, Val 10]"
    by simp_all
  have r1: "calc_temporal_resolution (bufr_units_sounding\<lparr>time := [Val 0, Val 2, Val 4, Val 7]\<rparr>)
       = Inr (Val 3)"
    unfolding calc_temporal_resolution_def ma_compressed_def Let_def t1 d1 i1 b1 a1 bind_err_def
    by (simp add: np_argmax_def)
  have r2: "calc_temporal_resolution (bufr_units_sounding\<lparr>time := [Val 0, Val 5, Val 10]\<rparr>)
       = Inl IndexError"
    unfolding calc_temporal_resolution_def ma_compressed_def Let_def t2 d2 i2 b2 a2 bind_err_def
    by (simp add: np_argmax_def)
  from d1 i1 b1 a1 r1 r2 show ?thesis by simp
qed

section \<open>The keys of the flattened document\<close>



















section \<open>The scan of the records\<close>



lemma get_series_frame [simp]:
  "get_series w (s\<lparr>station_lat := x\<rparr>) = get_series w s"
  "get_series w (s\<lparr>station_lon := x\<rparr>) = get_series w s"
  "get_series w (s\<lparr>meta_data := m\<rparr>) = get_series w s"
  "get_series w (s\<lparr>sounding_start_time := t\<rparr>) = get_series w s"
  by (cases w; simp)+

lemma get_unit_frame [simp]:
  "get_unit w (s\<lparr>station_lat := x\<rparr>) = get_unit w s"
  "get_unit w (s\<lparr>station_lon := x\<rparr>) = get_unit w s"
  "get_unit w (s\<lparr>meta_data := m\<rparr>) = get_unit w s"
  "get_unit w (s\<lparr>sounding_start_time := t\<rparr>) = get_unit w s"
  by (cases w; simp)+

lemma get_series_pad:
  "get_series w (pad_series v s) =
     (if w = v \<and> length (get_series v s) < length (time s)
      then get_series v s @ [SFloat NaN] else get_series w s)"
  by (simp add: pad_series_def get_set_series)

lemma get_unit_pad [simp]: "get_unit w (pad_series v s) = get_unit w s"
  by (simp add: pad_series_def get_unit_set_series)

lemma get_unit_ensure [simp]: "get_unit w (ensure_measurement_integrity s) = get_unit w s"
  by (simp add: ensure_measurement_integrity_def padded_variables_def)

lemma fold_pad_series:
  "Time \<notin> set vs \<Longrightarrow> distinct vs \<Longrightarrow>
     get_series w (fold pad_series vs s) =
       (if w \<in> set vs \<and> length (get_series w s) < length (time s)
        then get_series w s @ [SFloat NaN] else get_series w s)"
proof (induction vs arbitrary: s)
  case Nil
  then show ?case by simp
next
  case (Cons v vs)
  from Cons.prems have nt: "Time \<notin> set vs" and d: "distinct vs" and v: "v \<noteq> Time" "v \<notin> set vs"
    by auto
  from v(1) have t: "time (pad_series v s) = time s"
    using get_series_pad [of Time v s] by simp
  show ?case
    using v by (auto simp: Cons.IH [OF nt d] t get_series_pad)
qed

lemma get_series_ensure:
  "get_series w (ensure_measurement_integrity s) =
     (if w \<in> set padded_variables \<and> length (get_series w s) < length (time s)
      then get_series w s @ [SFloat NaN] else get_series w s)"
  unfolding ensure_measurement_integrity_def
  by (rule fold_pad_series) (simp_all add: padded_variables_def)

lemma time_ensure [simp]: "time (ensure_measurement_integrity s) = time s"
  using get_series_ensure [of Time s] by (simp add: padded_variables_def)











lemma get_series_empty [simp]: "get_series w empty_sounding = []"
  by (cases w) (simp_all add: empty_sounding_def)

lemma get_unit_empty [simp]: "get_unit w empty_sounding = SNone"
  by (cases w) (simp_all add: empty_sounding_def)

lemma time_empty [simp]: "time empty_sounding = []"
  by (simp add: empty_sounding_def)

section \<open>Two documents, scanned\<close>
















section \<open>The lengths of the series\<close>




end
